theory Spec2Isabelle
  imports Main "HOL-Library.Word"
begin

section \<open>JavaScript values, strings and bytes\<close>

text \<open>
  The server is TypeScript running on Node. Its values are modelled as follows.
  \<^item> A JavaScript string is a \<open>string\<close>: a list of code units, restricted to the
    8-bit range (Latin-1). Text outside that range (the server's Chinese messages)
    is carried by the \<open>message\<close> datatype below, one constructor per source literal.
  \<^item> A JavaScript number is an \<open>int\<close>: only integral values are modelled.
  \<^item> A value of unknown shape (\<open>any\<close>: tool arguments that the code inspects with
    \<open>typeof\<close> or \<open>Array.isArray\<close>, and everything the remote API returns) is a \<open>json\<close>.
  \<^item> A \<open>Buffer\<close> is a list of bytes.
\<close>

datatype json =
    JUndefined
  | JNull
  | JBool bool
  | JNum int
  | JStr string
  | JArr "json list"
  | JObj "(string \<times> json) list"

type_synonym byte = "8 word"

text \<open>Truthiness, as \<open>if (x)\<close>, \<open>!x\<close>, \<open>x || y\<close> and \<open>x && y\<close> test it.\<close>

fun truthy :: "json \<Rightarrow> bool" where
  "truthy JUndefined = False"
| "truthy JNull = False"
| "truthy (JBool b) = b"
| "truthy (JNum n) = (n \<noteq> 0)"
| "truthy (JStr s) = (s \<noteq> [])"
| "truthy (JArr xs) = True"
| "truthy (JObj kvs) = True"

text \<open>\<open>typeof x === 'number'\<close>, \<open>typeof x === 'object'\<close> and \<open>Array.isArray(x)\<close>.\<close>

fun is_number :: "json \<Rightarrow> bool" where
  "is_number (JNum n) = True"
| "is_number v = False"


fun isArray :: "json \<Rightarrow> bool" where
  "isArray (JArr xs) = True"
| "isArray v = False"


definition str_truthy :: "string option \<Rightarrow> bool" where
  "str_truthy x = (case x of None \<Rightarrow> False | Some s \<Rightarrow> s \<noteq> [])"

subsection \<open>Numbers and strings\<close>

definition digit_char :: "nat \<Rightarrow> char" where
  "digit_char d = ''0123456789'' ! d"

function show_nat :: "nat \<Rightarrow> string" where
  "show_nat n = (if n < 10 then [digit_char n] else show_nat (n div 10) @ [digit_char (n mod 10)])"
  by pat_completeness auto
termination
  by (relation "measure (\<lambda>n. n)") auto

declare show_nat.simps [simp del]

text \<open>Number to string, as a template literal \<open>`${n}`\<close> does it for an integer.\<close>

definition show_int :: "int \<Rightarrow> string" where
  "show_int i = (if i < 0 then CHR ''-'' # show_nat (nat (- i)) else show_nat (nat i))"

fun join :: "string \<Rightarrow> string list \<Rightarrow> string" where
  "join sep [] = []"
| "join sep [x] = x"
| "join sep (x # y # ys) = x @ sep @ join sep (y # ys)"

text \<open>\<open>String(x)\<close>, the conversion a template literal, \<open>encodeURIComponent\<close> and
  \<open>RegExp.prototype.test\<close> apply to their argument. An array joins its elements with
  a comma, \<open>null\<close> and \<open>undefined\<close> elements giving the empty string.\<close>

fun to_string :: "json \<Rightarrow> string" where
  "to_string JUndefined = ''undefined''"
| "to_string JNull = ''null''"
| "to_string (JBool b) = (if b then ''true'' else ''false'')"
| "to_string (JNum n) = show_int n"
| "to_string (JStr s) = s"
| "to_string (JArr xs) =
     join '','' (map (\<lambda>x. if x = JUndefined \<or> x = JNull then [] else to_string x) xs)"
| "to_string (JObj kvs) = ''[object Object]''"

definition quote :: char where
  "quote = CHR 0x27"

text \<open>\<open>s.replace(/'/g, "''")\<close>: every single quote is doubled.\<close>

definition escape_quotes :: "string \<Rightarrow> string" where
  "escape_quotes s = concat (map (\<lambda>c. if c = quote then [quote, quote] else [c]) s)"

text \<open>\<open>s.split(sep)\<close> for a one-character separator; the empty string gives \<open>[""]\<close>.\<close>

fun split :: "char \<Rightarrow> string \<Rightarrow> string list" where
  "split sep [] = [[]]"
| "split sep (c # cs) =
     (if c = sep then [] # split sep cs
      else (case split sep cs of [] \<Rightarrow> [[c]] | x # xs \<Rightarrow> (c # x) # xs))"

text \<open>White space as \<open>trim\<close> and the regular-expression class \<open>\s\<close> know it, within
  the 8-bit range: TAB, LF, VT, FF, CR, SPACE and NO-BREAK SPACE.\<close>

definition is_space :: "char \<Rightarrow> bool" where
  "is_space c = (of_char c \<in> {9, 10, 11, 12, 13, 32, 160 :: nat})"

definition trim :: "string \<Rightarrow> string" where
  "trim s = rev (dropWhile is_space (rev (dropWhile is_space s)))"

definition is_digit :: "char \<Rightarrow> bool" where
  "is_digit c = (48 \<le> (of_char c :: nat) \<and> (of_char c :: nat) \<le> 57)"

subsection \<open>encodeURIComponent\<close>

definition hex_digit :: "nat \<Rightarrow> char" where
  "hex_digit d = ''0123456789ABCDEF'' ! d"

definition percent :: "nat \<Rightarrow> string" where
  "percent b = [CHR ''%'', hex_digit (b div 16), hex_digit (b mod 16)]"

definition uri_unreserved :: "char \<Rightarrow> bool" where
  "uri_unreserved c =
     (c \<in> set ''ABCDEFGHIJKLMNOPQRSTUVWXYZabcdefghijklmnopqrstuvwxyz0123456789-_.!~*()''
      \<or> c = quote)"

text \<open>Every code unit outside the unreserved set is replaced by the percent-escapes of
  its UTF-8 encoding: one byte below 128, two bytes from 128 to 255.\<close>

definition encodeURIComponent :: "string \<Rightarrow> string" where
  "encodeURIComponent s =
     concat (map (\<lambda>c. if uri_unreserved c then [c]
                      else if (of_char c :: nat) < 128 then percent (of_char c)
                      else percent (192 + of_char c div 64) @ percent (128 + of_char c mod 64)) s)"

subsection \<open>Buffers\<close>

text \<open>\<open>buf.slice(start, end)\<close> of Node: a negative offset counts from the end, both
  offsets are clamped to the buffer, and an end before the start gives no bytes.\<close>

definition adjustOffset :: "int \<Rightarrow> int \<Rightarrow> int" where
  "adjustOffset offset len =
     (if offset = 0 then 0
      else if offset < 0 then (if offset + len > 0 then offset + len else 0)
      else if offset < len then offset
      else len)"

definition slice :: "byte list \<Rightarrow> int \<Rightarrow> int \<Rightarrow> byte list" where
  "slice buf start endIdx =
     (let len = int (length buf);
          a = adjustOffset start len;
          b = adjustOffset endIdx len
      in if b > a then take (nat (b - a)) (drop (nat a) buf) else [])"

text \<open>
  \<open>Buffer.from(s, 'base64')\<close> is Node's decoder, not code of this repository. It is
  modelled after Node's documented behaviour: characters outside the Base64 alphabets
  (standard and URL-safe) are skipped, decoding stops at the first \<open>=\<close>, an incomplete
  last group gives the bytes its complete sextet pairs hold, and no string makes it throw.
\<close>

definition unbase64 :: "char \<Rightarrow> nat option" where
  "unbase64 c =
     (let n = (of_char c :: nat) in
      if 65 \<le> n \<and> n \<le> 90 then Some (n - 65)
      else if 97 \<le> n \<and> n \<le> 122 then Some (n - 71)
      else if 48 \<le> n \<and> n \<le> 57 then Some (n + 4)
      else if c = CHR ''+'' \<or> c = CHR ''-'' then Some 62
      else if c = CHR ''/'' \<or> c = CHR ''_'' then Some 63
      else None)"

fun decode_groups :: "nat list \<Rightarrow> byte list" where
  "decode_groups (a # b # c # d # rest) =
     [of_nat (a * 4 + b div 16), of_nat ((b mod 16) * 16 + c div 4), of_nat ((c mod 4) * 64 + d)]
       @ decode_groups rest"
| "decode_groups [a, b, c] = [of_nat (a * 4 + b div 16), of_nat ((b mod 16) * 16 + c div 4)]"
| "decode_groups [a, b] = [of_nat (a * 4 + b div 16)]"
| "decode_groups [a] = []"
| "decode_groups [] = []"

definition base64_decode :: "string \<Rightarrow> byte list" where
  "base64_decode s = decode_groups (List.map_filter unbase64 (takeWhile (\<lambda>c. c \<noteq> CHR ''='') s))"

text \<open>Valid Base64 in the sense of RFC 4648: groups of four characters of the standard
  alphabet, the last group closed by at most two \<open>=\<close>.\<close>

definition base64_char :: "char \<Rightarrow> bool" where
  "base64_char c =
     (c \<in> set ''ABCDEFGHIJKLMNOPQRSTUVWXYZabcdefghijklmnopqrstuvwxyz0123456789+/'')"

definition valid_base64 :: "string \<Rightarrow> bool" where
  "valid_base64 s =
     (length s mod 4 = 0
      \<and> list_all base64_char (takeWhile (\<lambda>c. c \<noteq> CHR ''='') s)
      \<and> dropWhile (\<lambda>c. c \<noteq> CHR ''='') s \<in> {[], ''='', ''==''})"

section \<open>Errors\<close>

datatype ErrorCode = InvalidParams | InternalError | MethodNotFound

text \<open>
  The message of an error. \<open>Literal\<close> is text in the 8-bit range (what the remote API or
  the runtime supplies); every other constructor stands for one message of the source,
  named after what the message says, with the values the source interpolates:
  \<^item> \<open>ProjectListFailed m\<close>: the message of \<open>getProjectName\<close>, ending in \<open>${message}\<close>;
  \<^item> \<open>ToolFailed name m\<close>: the message of the dispatch boundary, built from
    \<open>${request.params.name}\<close> and \<open>${message}\<close>;
  \<^item> \<open>SdkText code m\<close>: the \<open>message\<close> property of an \<open>McpError\<close>, which the SDK's
    constructor builds from the code and the message it is given;
  \<^item> \<open>UploadParamsMissing\<close>, \<open>Base64Unparsable\<close>: \<open>upload_work_item_attachment\<close>;
  \<^item> \<open>UpdateParamsMissing\<close>, \<open>AssignedToNotEmail\<close>: \<open>update_work_item\<close>;
  \<^item> \<open>IdsNotNonEmptyArray\<close>, \<open>IdsOver200\<close>: \<open>get_work_items_batch\<close>;
  \<^item> \<open>OperationsNotNonEmptyArray\<close>, and the positional messages that start with
    \<open>${index}\<close>: \<open>OperationNeedsWorkItemId index method\<close>,
    \<open>OperationNeedsWorkItemType index\<close>, \<open>OperationUnsupportedMethod index method\<close>:
    \<open>batch_update_work_items\<close>;
  \<^item> \<open>RuntimeText\<close>: the text of a \<open>TypeError\<close> raised by the runtime.
\<close>

datatype message =
    Literal string
  | RuntimeText
  | SdkText ErrorCode message
  | ProjectListFailed message
  | ToolFailed string message
  | UploadParamsMissing
  | Base64Unparsable
  | UpdateParamsMissing
  | AssignedToNotEmail
  | IdsNotNonEmptyArray
  | IdsOver200
  | OperationsNotNonEmptyArray
  | OperationNeedsWorkItemId nat string
  | OperationNeedsWorkItemType nat
  | OperationUnsupportedMethod nat string

text \<open>What can be thrown: an \<open>McpError\<close> with its code, an \<open>AxiosError\<close> (with
  \<open>error.response?.data?.message\<close> and \<open>error.message\<close>), a \<open>TypeError\<close> of the
  runtime, or a plain \<open>Error\<close>.\<close>

datatype js_error =
    McpError ErrorCode message
  | AxiosError json string
  | TypeError
  | Error string

text \<open>The catch blocks: \<open>error.response?.data?.message || error.message\<close> for an
  \<open>AxiosError\<close>, \<open>error.message\<close> otherwise; the code of an \<open>McpError\<close> is kept and
  anything else becomes \<open>InternalError\<close>.\<close>

fun error_message :: "js_error \<Rightarrow> message" where
  "error_message (McpError c m) = SdkText c m"
| "error_message (AxiosError rm m) = Literal (if truthy rm then to_string rm else m)"
| "error_message TypeError = RuntimeText"
| "error_message (Error m) = Literal m"

fun error_code :: "js_error \<Rightarrow> ErrorCode" where
  "error_code (McpError c m) = c"
| "error_code e = InternalError"

subsection \<open>Property access\<close>

definition lookup :: "(string \<times> json) list \<Rightarrow> string \<Rightarrow> json" where
  "lookup kvs k = (case map_of kvs k of None \<Rightarrow> JUndefined | Some v \<Rightarrow> v)"

text \<open>\<open>x.k\<close> for a named property: a \<open>TypeError\<close> on \<open>null\<close> and \<open>undefined\<close>; strings and
  arrays have a \<open>length\<close>; any other property of a primitive or an array is \<open>undefined\<close>.\<close>

fun get_prop :: "json \<Rightarrow> string \<Rightarrow> js_error + json" where
  "get_prop JUndefined k = Inl TypeError"
| "get_prop JNull k = Inl TypeError"
| "get_prop (JObj kvs) k = Inr (lookup kvs k)"
| "get_prop (JArr xs) k = Inr (if k = ''length'' then JNum (int (length xs)) else JUndefined)"
| "get_prop (JStr s) k = Inr (if k = ''length'' then JNum (int (length s)) else JUndefined)"
| "get_prop v k = Inr JUndefined"

text \<open>\<open>x[0]\<close>.\<close>

fun first_element :: "json \<Rightarrow> js_error + json" where
  "first_element JUndefined = Inl TypeError"
| "first_element JNull = Inl TypeError"
| "first_element (JArr xs) = Inr (case xs of [] \<Rightarrow> JUndefined | x # _ \<Rightarrow> x)"
| "first_element (JStr s) = Inr (case s of [] \<Rightarrow> JUndefined | c # _ \<Rightarrow> JStr [c])"
| "first_element (JObj kvs) = Inr (lookup kvs ''0'')"
| "first_element v = Inr JUndefined"


section \<open>The remote API and the process state\<close>

datatype http_method = GET | POST | PATCH | DELETE

datatype body = NoBody | NullBody | Bytes "byte list" | Json json

record request =
  http :: http_method
  url :: string
  headers :: "(string \<times> string) list"
  body :: body

text \<open>
  The remote API is a parameter: \<open>net i r\<close> is what the \<open>i\<close>-th request of the process
  gets when it is \<open>r\<close>, either a failure or \<open>response.data\<close>. A failed request makes
  \<open>await\<close> throw an \<open>AxiosError\<close>; \<open>Failure rm m\<close> holds its
  \<open>error.response?.data?.message\<close> and its \<open>error.message\<close>.
\<close>

datatype failure = Failure json string

type_synonym remote = "nat \<Rightarrow> request \<Rightarrow> failure + json"

fun thrown :: "failure \<Rightarrow> js_error" where
  "thrown (Failure rm m) = AxiosError rm m"

text \<open>The configuration: \<open>ORG_URL\<close> from the environment and the constant
  \<open>API_VERSION\<close> (\<open>"7.1"\<close> in \<open>src/index.ts\<close>, \<open>"7.2-preview"\<close> in the later version).\<close>

record env =
  ORG_URL :: string
  API_VERSION :: string

text \<open>The two module variables \<open>axiosInstance\<close> (here: whether it has been created) and
  \<open>projectName\<close> (\<open>JNull\<close> at start), and the requests sent so far, oldest first.\<close>

record state =
  axiosInstance :: bool
  projectName :: json
  sent :: "request list"

definition send :: "remote \<Rightarrow> request \<Rightarrow> state \<Rightarrow> (js_error + json) \<times> state" where
  "send net r s =
     (case net (length (sent s)) r of
        Inl f \<Rightarrow> (Inl (thrown f), s\<lparr>sent := sent s @ [r]\<rparr>)
      | Inr data \<Rightarrow> (Inr data, s\<lparr>sent := sent s @ [r]\<rparr>))"

definition getAxiosInstance :: "state \<Rightarrow> state" where
  "getAxiosInstance s = (if \<not> axiosInstance s then s\<lparr>axiosInstance := True\<rparr> else s)"

subsection \<open>getProjectName\<close>

definition projects_request :: "env \<Rightarrow> request" where
  "projects_request e =
     \<lparr>http = GET, url = ''/_apis/projects?api-version='' @ API_VERSION e,
      headers = [], body = NoBody\<rparr>"

text \<open>The body of the \<open>try\<close> after the response has arrived: \<open>projects[0].name\<close>, or the
  error thrown on the way.\<close>

definition first_project_name :: "json \<Rightarrow> js_error + json" where
  "first_project_name data =
     (case get_prop data ''value'' of
        Inl e \<Rightarrow> Inl e
      | Inr projects \<Rightarrow>
          if \<not> truthy projects then Inl (Error ''Could not find any projects in the Azure DevOps organization.'')
          else (case get_prop projects ''length'' of
                  Inl e \<Rightarrow> Inl e
                | Inr len \<Rightarrow>
                    if len = JNum 0 then Inl (Error ''Could not find any projects in the Azure DevOps organization.'')
                    else (case first_element projects of
                            Inl e \<Rightarrow> Inl e
                          | Inr p \<Rightarrow>
                              (case get_prop p ''name'' of
                                 Inl e \<Rightarrow> Inl e
                               | Inr name \<Rightarrow>
                                   if \<not> truthy name then Inl (Error ''Could not find any projects in the Azure DevOps organization.'')
                                   else Inr name))))"

definition getProjectName :: "env \<Rightarrow> remote \<Rightarrow> state \<Rightarrow> (js_error + json) \<times> state" where
  "getProjectName e net s =
     (if \<not> truthy (projectName s) then
        (case send net (projects_request e) (getAxiosInstance s) of
           (Inl err, s1) \<Rightarrow>
             (Inl (McpError InternalError (ProjectListFailed (error_message err))), s1)
         | (Inr data, s1) \<Rightarrow>
             (case first_project_name data of
                Inl err \<Rightarrow>
                  (Inl (McpError InternalError (ProjectListFailed (error_message err))), s1)
              | Inr name \<Rightarrow> (Inr name, s1\<lparr>projectName := name\<rparr>)))
      else (Inr (projectName s), s))"


section \<open>The dispatch boundary\<close>

text \<open>What a tool call returns. The final rendering of a result as text
  (\<open>JSON.stringify\<close> or a summary) is not modelled: a result carries the values that are
  rendered.
  \<^item> \<open>Uploaded id url\<close>: \<open>upload_work_item_attachment\<close>;
  \<^item> \<open>Updated id\<close>: \<open>update_work_item\<close>;
  \<^item> \<open>Fetched data\<close>: \<open>get_work_items_batch\<close>, with the \<open>response.data\<close> it summarises;
  \<^item> \<open>Submitted data\<close>: \<open>batch_update_work_items\<close>, with the \<open>response.data\<close> it tallies.\<close>

datatype tool_result =
    Uploaded json json
  | Updated json
  | Fetched json
  | Submitted json

type_synonym outcome = "(js_error + tool_result) \<times> state"

text \<open>
  The \<open>CallToolRequestSchema\<close> handler around the \<open>switch\<close>: it obtains the client and the
  default project name first (outside the \<open>try\<close>), runs the case of the tool, and
  rethrows whatever the case throws as an \<open>McpError\<close>. The case is the parameter
  \<open>handler\<close>; \<open>None\<close> is a case that never returns.
\<close>

definition call_tool ::
  "env \<Rightarrow> remote \<Rightarrow> string \<Rightarrow> (json \<Rightarrow> state \<Rightarrow> outcome option) \<Rightarrow> state \<Rightarrow> outcome option" where
  "call_tool e net name handler s =
     (case getProjectName e net (getAxiosInstance s) of
        (Inl err, s1) \<Rightarrow> Some (Inl err, s1)
      | (Inr currentProjectName, s1) \<Rightarrow>
          (case handler currentProjectName s1 of
             None \<Rightarrow> None
           | Some (Inl err, s2) \<Rightarrow>
               Some (Inl (McpError (error_code err) (ToolFailed name (error_message err))), s2)
           | Some (Inr r, s2) \<Rightarrow> Some (Inr r, s2)))"

section \<open>upload_work_item_attachment\<close>

text \<open>The arguments of the tool, with the types the source casts them to;
  \<open>workItemId\<close> is checked with \<open>typeof\<close> and stays a \<open>json\<close>. \<open>projectNameArg\<close> is
  \<open>args.projectName\<close>.\<close>

record upload_args =
  workItemId :: json
  fileName :: "string option"
  fileContentBase64 :: "string option"
  projectNameArg :: "string option"
  comment :: "string option"
  chunkSize :: "int option"
  chunkThreshold :: "int option"

definition the_string :: "string option \<Rightarrow> string" where
  "the_string x = (case x of None \<Rightarrow> [] | Some s \<Rightarrow> s)"

text \<open>The \<open>try\<close> around \<open>Buffer.from(fileContentBase64, 'base64')\<close>: the decoder returns
  a buffer for every string.\<close>

definition Buffer_from_base64 :: "string \<Rightarrow> js_error + byte list" where
  "Buffer_from_base64 s = Inr (base64_decode s)"

definition attachments_path :: "json \<Rightarrow> string" where
  "attachments_path targetProjectName =
     ''/'' @ encodeURIComponent (to_string targetProjectName) @ ''/_apis/wit/attachments''"

definition upload_request :: "env \<Rightarrow> json \<Rightarrow> string \<Rightarrow> byte list \<Rightarrow> request" where
  "upload_request e targetProjectName fname fileBuffer =
     \<lparr>http = POST,
      url = attachments_path targetProjectName @ ''?fileName='' @ encodeURIComponent fname
            @ ''&api-version='' @ API_VERSION e,
      headers = [(''Content-Type'', ''application/octet-stream'')],
      body = Bytes fileBuffer\<rparr>"

definition init_request :: "env \<Rightarrow> json \<Rightarrow> string \<Rightarrow> request" where
  "init_request e targetProjectName fname =
     \<lparr>http = POST,
      url = attachments_path targetProjectName @ ''?fileName='' @ encodeURIComponent fname
            @ ''&uploadType=chunked&api-version='' @ API_VERSION e,
      headers = [(''Content-Length'', ''0'')],
      body = NullBody\<rparr>"

definition chunk_upload_url :: "env \<Rightarrow> json \<Rightarrow> json \<Rightarrow> string" where
  "chunk_upload_url e targetProjectName attachmentId =
     attachments_path targetProjectName @ ''/'' @ to_string attachmentId
       @ ''?api-version='' @ API_VERSION e"

text \<open>One iteration of the chunk loop builds this request from \<open>start\<close>.\<close>

definition chunk_request :: "string \<Rightarrow> byte list \<Rightarrow> int \<Rightarrow> int \<Rightarrow> request" where
  "chunk_request chunkUploadUrl fileBuffer csize start =
     (let fileSize = int (length fileBuffer);
          endIdx = min (start + csize) fileSize - 1;
          chunk = slice fileBuffer start (endIdx + 1)
      in \<lparr>http = PATCH,
          url = chunkUploadUrl,
          headers = [(''Content-Type'', ''application/octet-stream''),
                     (''Content-Length'', show_int (int (length chunk))),
                     (''Content-Range'',
                        ''bytes '' @ show_int start @ ''-'' @ show_int endIdx @ ''/'' @ show_int fileSize)],
          body = Bytes chunk\<rparr>)"

text \<open>
  \<open>for (let start = 0; start < fileSize; start += chunkSize)\<close>, from any \<open>start\<close>. A
  rejected chunk ends the loop with the error; \<open>None\<close> is a loop that never ends.
\<close>

partial_function (option) chunk_loop ::
  "remote \<Rightarrow> string \<Rightarrow> byte list \<Rightarrow> int \<Rightarrow> int \<Rightarrow> state \<Rightarrow> ((js_error + unit) \<times> state) option" where
  "chunk_loop net chunkUploadUrl fileBuffer csize start s =
     (if start < int (length fileBuffer) then
        (case send net (chunk_request chunkUploadUrl fileBuffer csize start) s of
           (Inl err, s1) \<Rightarrow> Some (Inl err, s1)
         | (Inr response, s1) \<Rightarrow> chunk_loop net chunkUploadUrl fileBuffer csize (start + csize) s1)
      else Some (Inr (), s))"

definition link_request :: "env \<Rightarrow> json \<Rightarrow> json \<Rightarrow> string \<Rightarrow> request" where
  "link_request e wid attachmentUrl cmt =
     \<lparr>http = PATCH,
      url = ''/_apis/wit/workitems/'' @ to_string wid @ ''?api-version='' @ API_VERSION e,
      headers = [(''Content-Type'', ''application/json-patch+json'')],
      body = Json (JArr [JObj
        [(''op'', JStr ''add''),
         (''path'', JStr ''/relations/-''),
         (''value'', JObj
            [(''rel'', JStr ''AttachedFile''),
             (''url'', attachmentUrl),
             (''attributes'', JObj [(''comment'', JStr cmt)])])]])\<rparr>"

definition link_attachment ::
  "env \<Rightarrow> remote \<Rightarrow> json \<Rightarrow> string \<Rightarrow> json \<Rightarrow> json \<Rightarrow> state \<Rightarrow> outcome" where
  "link_attachment e net wid cmt attachmentId attachmentUrl s =
     (case send net (link_request e wid attachmentUrl cmt) s of
        (Inl err, s1) \<Rightarrow> (Inl err, s1)
      | (Inr response, s1) \<Rightarrow> (Inr (Uploaded attachmentId attachmentUrl), s1))"

definition target_project :: "string option \<Rightarrow> json \<Rightarrow> json" where
  "target_project p currentProjectName =
     (case p of None \<Rightarrow> currentProjectName | Some name \<Rightarrow> JStr name)"

definition upload_comment :: "upload_args \<Rightarrow> string" where
  "upload_comment args =
     (case comment args of
        None \<Rightarrow> ''Attached '' @ (case fileName args of None \<Rightarrow> ''undefined'' | Some f \<Rightarrow> f) @ '' via MCP''
      | Some c \<Rightarrow> c)"

definition upload_chunkSize :: "upload_args \<Rightarrow> int" where
  "upload_chunkSize args = (case chunkSize args of None \<Rightarrow> 4 * 1024 * 1024 | Some n \<Rightarrow> n)"

definition upload_chunkThreshold :: "upload_args \<Rightarrow> int" where
  "upload_chunkThreshold args =
     (case chunkThreshold args of None \<Rightarrow> 100 * 1024 * 1024 | Some n \<Rightarrow> n)"

definition final_attachment_url :: "env \<Rightarrow> json \<Rightarrow> json \<Rightarrow> string \<Rightarrow> string" where
  "final_attachment_url e targetProjectName attachmentId fname =
     ORG_URL e @ attachments_path targetProjectName @ ''/'' @ to_string attachmentId
       @ ''?fileName='' @ encodeURIComponent fname"

definition upload_work_item_attachment ::
  "env \<Rightarrow> remote \<Rightarrow> upload_args \<Rightarrow> json \<Rightarrow> state \<Rightarrow> outcome option" where
  "upload_work_item_attachment e net args currentProjectName s =
     (let targetProjectName = target_project (projectNameArg args) currentProjectName;
          fname = the_string (fileName args)
      in
      if \<not> is_number (workItemId args) \<or> \<not> str_truthy (fileName args)
         \<or> \<not> str_truthy (fileContentBase64 args)
      then Some (Inl (McpError InvalidParams UploadParamsMissing), s)
      else
        (case Buffer_from_base64 (the_string (fileContentBase64 args)) of
           Inl err \<Rightarrow> Some (Inl (McpError InvalidParams Base64Unparsable), s)
         | Inr fileBuffer \<Rightarrow>
             if int (length fileBuffer) \<le> upload_chunkThreshold args then
               (case send net (upload_request e targetProjectName fname fileBuffer) s of
                  (Inl err, s1) \<Rightarrow> Some (Inl err, s1)
                | (Inr data, s1) \<Rightarrow>
                    (case get_prop data ''url'' of
                       Inl err \<Rightarrow> Some (Inl err, s1)
                     | Inr attachmentUrl \<Rightarrow>
                         (case get_prop data ''id'' of
                            Inl err \<Rightarrow> Some (Inl err, s1)
                          | Inr attachmentId \<Rightarrow>
                              Some (link_attachment e net (workItemId args) (upload_comment args)
                                      attachmentId attachmentUrl s1))))
             else
               (case send net (init_request e targetProjectName fname) s of
                  (Inl err, s1) \<Rightarrow> Some (Inl err, s1)
                | (Inr data, s1) \<Rightarrow>
                    (case get_prop data ''id'' of
                       Inl err \<Rightarrow> Some (Inl err, s1)
                     | Inr attachmentId \<Rightarrow>
                         (case chunk_loop net (chunk_upload_url e targetProjectName attachmentId)
                                 fileBuffer (upload_chunkSize args) 0 s1 of
                            None \<Rightarrow> None
                          | Some (Inl err, s2) \<Rightarrow> Some (Inl err, s2)
                          | Some (Inr u, s2) \<Rightarrow>
                              Some (link_attachment e net (workItemId args) (upload_comment args)
                                      attachmentId
                                      (JStr (final_attachment_url e targetProjectName attachmentId fname))
                                      s2))))))"


subsection \<open>The byte ranges of a chunked upload\<close>







section \<open>search_work_items: the query conditions\<close>

text \<open>The filter arguments of the tool; \<open>searchProject\<close> is \<open>args.projectName\<close> and
  \<open>stateArg\<close> is \<open>args.state\<close>. The model covers the list \<open>conditions\<close> and the
  \<open>WHERE\<close> clause made of it.\<close>

record search_args =
  query :: "string option"
  searchProject :: "string option"
  workItemType :: "string option"
  stateArg :: "string option"
  assignedTo :: "string option"
  tags :: "string option"
  createdAfter :: "string option"
  updatedAfter :: "string option"

definition quoted :: "string \<Rightarrow> string" where
  "quoted s = [quote] @ s @ [quote]"

definition contains_tag :: "string \<Rightarrow> string" where
  "contains_tag tag = ''[System.Tags] CONTAINS '' @ quoted (escape_quotes tag)"

definition tag_list :: "string \<Rightarrow> string list" where
  "tag_list t = filter (\<lambda>x. x \<noteq> []) (map trim (split CHR '';'' t))"

definition tag_conditions :: "string option \<Rightarrow> string list" where
  "tag_conditions t =
     (if str_truthy t then
        (if length (tag_list (the_string t)) > 0
         then [''('' @ join '' OR '' (map contains_tag (tag_list (the_string t))) @ '')'']
         else [])
      else [])"

text \<open>\<open>/^\d+$/.test(queryText)\<close>.\<close>

definition isNumericId :: "string \<Rightarrow> bool" where
  "isNumericId s = (s \<noteq> [] \<and> list_all is_digit s)"

definition query_conditions :: "string option \<Rightarrow> string list" where
  "query_conditions q =
     (if str_truthy q then
        [''([System.Title] CONTAINS '' @ quoted (escape_quotes (the_string q)) @ '' ''
           @ (if isNumericId (the_string q) then ''OR [System.Id] = '' @ the_string q else [])
           @ '' OR [System.Description] CONTAINS '' @ quoted (escape_quotes (the_string q)) @ '')'']
      else [])"

text \<open>An equality filter pushed when its value is truthy, the value with its quotes doubled.\<close>

definition equals_condition :: "string \<Rightarrow> string option \<Rightarrow> string list" where
  "equals_condition field v =
     (if str_truthy v then [field @ '' = '' @ quoted (escape_quotes (the_string v))] else [])"

text \<open>A date filter pushed when its value is truthy, the value as it is.\<close>

definition date_condition :: "string \<Rightarrow> string option \<Rightarrow> string list" where
  "date_condition field v =
     (if str_truthy v then [field @ '' >= '' @ quoted (the_string v)] else [])"

text \<open>The list \<open>conditions\<close> after all the pushes. \<open>targetProjectName.replace\<close> is a
  \<open>TypeError\<close> when the default project name, which comes from the remote API, is not a
  string.\<close>

definition search_conditions :: "search_args \<Rightarrow> json \<Rightarrow> js_error + string list" where
  "search_conditions args currentProjectName =
     (case target_project (searchProject args) currentProjectName of
        JStr targetProjectName \<Rightarrow>
          Inr ([''[System.TeamProject] = '' @ quoted (escape_quotes targetProjectName)]
               @ equals_condition ''[System.WorkItemType]'' (workItemType args)
               @ equals_condition ''[System.State]'' (stateArg args)
               @ equals_condition ''[System.AssignedTo]'' (assignedTo args)
               @ tag_conditions (tags args)
               @ date_condition ''[System.CreatedDate]'' (createdAfter args)
               @ date_condition ''[System.ChangedDate]'' (updatedAfter args)
               @ query_conditions (query args))
      | other \<Rightarrow> Inl TypeError)"

definition where_clause :: "string list \<Rightarrow> string" where
  "where_clause conditions = ''WHERE '' @ join '' AND '' conditions"

section \<open>get_work_items_batch\<close>

fun array_items :: "json \<Rightarrow> json list" where
  "array_items (JArr xs) = xs"
| "array_items v = []"

definition batch_get_request ::
  "env \<Rightarrow> json \<Rightarrow> string list option \<Rightarrow> string option \<Rightarrow> string option \<Rightarrow> request" where
  "batch_get_request e ids requestedFields asOf expand =
     \<lparr>http = POST,
      url = ''/_apis/wit/workitemsbatch?api-version='' @ API_VERSION e,
      headers = [],
      body = Json (JObj
        ([(''ids'', ids),
          (''fields'', (case requestedFields of None \<Rightarrow> JUndefined | Some fs \<Rightarrow> JArr (map JStr fs)))]
         @ (if str_truthy asOf then [(''asOf'', JStr (the_string asOf))] else [])
         @ (if str_truthy expand then [(''$expand'', JStr (the_string expand))] else [])))\<rparr>"

text \<open>The case up to its request; the summary of the response is not modelled.\<close>

definition get_work_items_batch ::
  "env \<Rightarrow> remote \<Rightarrow> json \<Rightarrow> string list option \<Rightarrow> string option \<Rightarrow> string option
     \<Rightarrow> json \<Rightarrow> state \<Rightarrow> outcome" where
  "get_work_items_batch e net ids requestedFields asOf expand currentProjectName s =
     (if \<not> isArray ids \<or> length (array_items ids) = 0
      then (Inl (McpError InvalidParams IdsNotNonEmptyArray), s)
      else if length (array_items ids) > 200
      then (Inl (McpError InvalidParams IdsOver200), s)
      else
        (case send net (batch_get_request e ids requestedFields asOf expand) s of
           (Inl err, s1) \<Rightarrow> (Inl err, s1)
         | (Inr data, s1) \<Rightarrow> (Inr (Fetched data), s1)))"

section \<open>batch_update_work_items\<close>











section \<open>update_work_item\<close>

text \<open>\<open>/^[^@\s]+@[^@\s]+\.[^@\s]+$/.test(s)\<close>: the first \<open>@\<close> has at least one character
  before it, no character of the string but this \<open>@\<close> is an \<open>@\<close> or white space, and after
  the \<open>@\<close> there is a dot that is neither the first nor the last character.\<close>

definition plain_char :: "char \<Rightarrow> bool" where
  "plain_char c = (c \<noteq> CHR ''@'' \<and> \<not> is_space c)"

definition email_test :: "string \<Rightarrow> bool" where
  "email_test s =
     (let local = takeWhile (\<lambda>c. c \<noteq> CHR ''@'') s;
          rest = drop (length local + 1) s
      in local \<noteq> [] \<and> length local < length s
         \<and> list_all plain_char local \<and> list_all plain_char rest
         \<and> CHR ''.'' \<in> set (butlast (tl rest)))"





section \<open>Example values\<close>

text \<open>A configuration, a process state after startup (the client created and the
  default project name cached, before any request of a tool) and a remote API that
  answers every request with the same object. The theorems below are instantiated
  with them.\<close>

definition env0 :: env where
  "env0 = \<lparr>ORG_URL = ''https://dev.azure.com/org'', API_VERSION = ''7.1''\<rparr>"

definition ready :: state where
  "ready = \<lparr>axiosInstance = True, projectName = JStr ''Proj'', sent = []\<rparr>"

definition net_ok :: remote where
  "net_ok i r = Inr (JObj [(''id'', JStr ''a1''), (''url'', JStr ''u1'')])"




definition upload_example :: "string \<Rightarrow> int option \<Rightarrow> int option \<Rightarrow> upload_args" where
  "upload_example content csize threshold =
     \<lparr>workItemId = JNum 7, fileName = Some ''a.bin'', fileContentBase64 = Some content,
      projectNameArg = None, comment = None, chunkSize = csize, chunkThreshold = threshold\<rparr>"

text \<open>A search for bugs with a state, a tag list and a creation date, and a value that
  holds single quotes: \<open>2024-01-01' OR [System.Id] > 0 OR [System.Title] = '\<close>.\<close>

definition search_example :: "string option \<Rightarrow> string option \<Rightarrow> string option \<Rightarrow> search_args" where
  "search_example st tgs created =
     \<lparr>query = None, searchProject = None, workItemType = Some ''Bug'', stateArg = st,
      assignedTo = None, tags = tgs, createdAfter = created, updatedAfter = None\<rparr>"

definition injected :: string where
  "injected = ''2024-01-01'' @ [quote] @ '' OR [System.Id] > 0 OR [System.Title] = '' @ [quote]"

section \<open>The chunked upload: byte ranges and the loop\<close>


















section \<open>Example values: facts\<close>


lemma decode_bang: "base64_decode ''!!!!'' = []"
  by (simp add: base64_decode_def unbase64_def List.map_filter_simps)

lemma decode_five: "base64_decode ''AQIDBAU='' = [1, 2, 3, 4, 5]"
  by (simp add: base64_decode_def unbase64_def List.map_filter_simps)


lemma upload_example_valid:
  "is_number (workItemId (upload_example content csize threshold))"
  "str_truthy (fileName (upload_example content csize threshold))"
  "content \<noteq> [] \<Longrightarrow> str_truthy (fileContentBase64 (upload_example content csize threshold))"
  by (simp_all add: upload_example_def str_truthy_def)

section \<open>The chunked upload: claims\<close>







section \<open>The single upload: claims\<close>

lemma not_init_request:
  "upload_request e t f buf \<noteq> init_request e' t' f'"
  "link_request e w a c \<noteq> init_request e' t' f'"
  by (auto simp: upload_request_def init_request_def link_request_def)

lemma not_chunk_request:
  "upload_request e t f buf \<noteq> chunk_request u b c k"
  "link_request e w a cm \<noteq> chunk_request u b c k"
  by (auto simp: upload_request_def chunk_request_def link_request_def Let_def)

text \<open>
  Claim C2. Let the decoded buffer be no longer than the chunk threshold, and let \<open>up\<close> be
  the upload request for it. Then \<open>up\<close> is a POST whose body is the entire buffer; every
  run of the handler returns, and the requests it sends are \<open>up\<close>, followed by nothing
  (the upload failed) or by the one request that links the attachment (always so in a
  run that succeeds); none of them is an initiate request or a chunk request.
\<close>

theorem single_upload:
  assumes valid: "is_number (workItemId args)" "str_truthy (fileName args)"
      "str_truthy (fileContentBase64 args)"
    and buf: "buf = base64_decode (the_string (fileContentBase64 args))"
    and small: "int (length buf) \<le> upload_chunkThreshold args"
    and up: "up = upload_request e (target_project (projectNameArg args) cur) (the_string (fileName args)) buf"
  shows "http up = POST \<and> body up = Bytes buf
    \<and> (\<exists>res s' tail.
          upload_work_item_attachment e net args cur s = Some (res, s')
        \<and> sent s' = sent s @ up # tail
        \<and> (tail = [] \<or> (\<exists>a. tail = [link_request e (workItemId args) a (upload_comment args)]))
        \<and> ((\<exists>r. res = Inr r) \<longrightarrow> tail \<noteq> [])
        \<and> (\<forall>r \<in> set (up # tail).
              (\<forall>e' t f. r \<noteq> init_request e' t f) \<and> (\<forall>u b c k. r \<noteq> chunk_request u b c k)))"
proof -
  let ?s1 = "s\<lparr>sent := sent s @ [up]\<rparr>"
  have unf: "upload_work_item_attachment e net args cur s =
      (case net (length (sent s)) up of
         Inl f \<Rightarrow> Some (Inl (thrown f), ?s1)
       | Inr data \<Rightarrow>
           (case get_prop data ''url'' of
              Inl err \<Rightarrow> Some (Inl err, ?s1)
            | Inr attachmentUrl \<Rightarrow>
                (case get_prop data ''id'' of
                   Inl err \<Rightarrow> Some (Inl err, ?s1)
                 | Inr attachmentId \<Rightarrow>
                     Some (link_attachment e net (workItemId args) (upload_comment args)
                             attachmentId attachmentUrl ?s1))))"
    using valid small
    by (simp add: upload_work_item_attachment_def Let_def Buffer_from_base64_def buf up send_def
          split: sum.splits)
  have shape: "http up = POST \<and> body up = Bytes buf" by (simp add: up upload_request_def)
  have clean_up: "(\<forall>e' t f. up \<noteq> init_request e' t f) \<and> (\<forall>u b c k. up \<noteq> chunk_request u b c k)"
    unfolding up by (simp add: not_init_request not_chunk_request)
  have aborted: "\<exists>res s' tail.
          upload_work_item_attachment e net args cur s = Some (res, s')
        \<and> sent s' = sent s @ up # tail
        \<and> (tail = [] \<or> (\<exists>a. tail = [link_request e (workItemId args) a (upload_comment args)]))
        \<and> ((\<exists>r. res = Inr r) \<longrightarrow> tail \<noteq> [])
        \<and> (\<forall>r \<in> set (up # tail).
              (\<forall>e' t f. r \<noteq> init_request e' t f) \<and> (\<forall>u b c k. r \<noteq> chunk_request u b c k))"
    if "upload_work_item_attachment e net args cur s = Some (Inl err, ?s1)" for err
    using that clean_up
    by (intro exI [of _ "Inl err"] exI [of _ ?s1] exI [of _ "[]"]) simp
  have run: "\<exists>res s' tail.
          upload_work_item_attachment e net args cur s = Some (res, s')
        \<and> sent s' = sent s @ up # tail
        \<and> (tail = [] \<or> (\<exists>a. tail = [link_request e (workItemId args) a (upload_comment args)]))
        \<and> ((\<exists>r. res = Inr r) \<longrightarrow> tail \<noteq> [])
        \<and> (\<forall>r \<in> set (up # tail).
              (\<forall>e' t f. r \<noteq> init_request e' t f) \<and> (\<forall>u b c k. r \<noteq> chunk_request u b c k))"
  proof (cases "net (length (sent s)) up")
    case (Inl err)
    then show ?thesis by (intro aborted [of "thrown err"]) (simp add: unf)
  next
    case (Inr data)
    show ?thesis
    proof (cases "get_prop data ''url''")
      case (Inl err)
      with Inr show ?thesis by (intro aborted [of err]) (simp add: unf)
    next
      case url: (Inr attachmentUrl)
      show ?thesis
      proof (cases "get_prop data ''id''")
        case (Inl err)
        with Inr url show ?thesis by (intro aborted [of err]) (simp add: unf)
      next
        case aid: (Inr attachmentId)
        let ?link = "link_request e (workItemId args) attachmentUrl (upload_comment args)"
        let ?s2 = "s\<lparr>sent := sent s @ [up, ?link]\<rparr>"
        have clean_link: "(\<forall>e' t f. ?link \<noteq> init_request e' t f) \<and> (\<forall>u b c k. ?link \<noteq> chunk_request u b c k)"
          by (simp add: not_init_request not_chunk_request)
        from Inr url aid
        have "upload_work_item_attachment e net args cur s =
            Some (case net (Suc (length (sent s))) ?link of
                    Inl f \<Rightarrow> (Inl (thrown f), ?s2)
                  | Inr response \<Rightarrow> (Inr (Uploaded attachmentId attachmentUrl), ?s2))"
          by (simp add: unf link_attachment_def send_def split: sum.splits)
        then obtain res where "upload_work_item_attachment e net args cur s = Some (res, ?s2)"
          by (cases "net (Suc (length (sent s))) ?link") simp_all
        then show ?thesis using clean_up clean_link
          by (intro exI [of _ res] exI [of _ ?s2] exI [of _ "[?link]"]) auto
      qed
    qed
  qed
  with shape show ?thesis by blast
qed

text \<open>Claim C2 at a five-byte buffer with the default threshold.\<close>

theorem single_upload_witness:
  "let args = upload_example ''AQIDBAU='' None None;
       buf = [1, 2, 3, 4, 5];
       up = upload_request env0 (target_project (projectNameArg args) (JStr ''Proj''))
              (the_string (fileName args)) buf
   in buf = base64_decode (the_string (fileContentBase64 args))
    \<and> int (length buf) \<le> upload_chunkThreshold args
    \<and> http up = POST \<and> body up = Bytes buf
    \<and> (\<exists>res s' tail.
          upload_work_item_attachment env0 net_ok args (JStr ''Proj'') ready = Some (res, s')
        \<and> sent s' = sent ready @ up # tail
        \<and> (tail = [] \<or> (\<exists>a. tail = [link_request env0 (workItemId args) a (upload_comment args)]))
        \<and> ((\<exists>r. res = Inr r) \<longrightarrow> tail \<noteq> [])
        \<and> (\<forall>r \<in> set (up # tail).
              (\<forall>e' t f. r \<noteq> init_request e' t f) \<and> (\<forall>u b c k. r \<noteq> chunk_request u b c k)))"
proof -
  let ?args = "upload_example ''AQIDBAU='' None None"
  have buf: "[1, 2, 3, 4, 5] = base64_decode (the_string (fileContentBase64 ?args))"
    by (simp add: upload_example_def the_string_def decode_five)
  have small: "int (length [1, 2, 3, 4, 5 :: byte]) \<le> upload_chunkThreshold ?args"
    by (simp add: upload_example_def upload_chunkThreshold_def)
  have v3: "str_truthy (fileContentBase64 ?args)" by (rule upload_example_valid) simp
  note inst = single_upload [OF upload_example_valid(1) upload_example_valid(2) v3 buf small refl,
      of env0 "JStr ''Proj''" net_ok ready]
  show ?thesis unfolding Let_def using buf small inst by blast
qed

text \<open>
  Claim C3 does not hold of the code. The string \<open>!!!!\<close> is not valid Base64, but the
  decoder does not throw on it: it yields the empty buffer, the \<open>catch\<close> that would raise
  the invalid-argument error is never entered, and the handler uploads the empty buffer
  and links it.
\<close>

theorem invalid_base64_uploaded:
  "\<not> valid_base64 ''!!!!'' \<and>
   call_tool env0 net_ok ''upload_work_item_attachment''
     (upload_work_item_attachment env0 net_ok (upload_example ''!!!!'' None None)) ready
   = Some (Inr (Uploaded (JStr ''a1'') (JStr ''u1'')),
           ready\<lparr>sent := [upload_request env0 (JStr ''Proj'') ''a.bin'' [],
                            link_request env0 (JNum 7) (JStr ''u1'') ''Attached a.bin via MCP'']\<rparr>)"
  by (simp add: valid_base64_def base64_char_def call_tool_def getProjectName_def getAxiosInstance_def
        upload_work_item_attachment_def upload_example_def Let_def str_truthy_def the_string_def
        Buffer_from_base64_def decode_bang upload_chunkThreshold_def upload_chunkSize_def
        send_def net_ok_def ready_def lookup_def link_attachment_def target_project_def
        upload_comment_def)

text \<open>For that call the result is not the invalid-argument error the \<open>catch\<close> would raise.\<close>

theorem invalid_base64_uploaded_witness:
  "call_tool env0 net_ok ''upload_work_item_attachment''
     (upload_work_item_attachment env0 net_ok (upload_example ''!!!!'' None None)) ready
   \<noteq> Some (Inl (McpError InvalidParams
                   (ToolFailed ''upload_work_item_attachment'' (SdkText InvalidParams Base64Unparsable))),
            ready)"
  using invalid_base64_uploaded by simp

section \<open>getProjectName: claims\<close>





section \<open>get_work_items_batch: claims\<close>

lemma call_tool_cached:
  "truthy (projectName s) \<Longrightarrow>
   call_tool e net name handler s =
     (case handler (projectName s) (getAxiosInstance s) of
        None \<Rightarrow> None
      | Some (Inl err, s2) \<Rightarrow>
          Some (Inl (McpError (error_code err) (ToolFailed name (error_message err))), s2)
      | Some (Inr r, s2) \<Rightarrow> Some (Inr r, s2))"
  by (simp add: call_tool_def getProjectName_def getAxiosInstance_def)

lemma sent_getAxiosInstance: "sent (getAxiosInstance s) = sent s"
  by (simp add: getAxiosInstance_def)

lemma error_code_thrown: "error_code (thrown f) = InternalError"
  by (cases f) simp

text \<open>
  Claim C6. A tool call arrives after startup, when the default project name is cached.
  Then for \<open>get_work_items_batch\<close>:
  \<^item> a list of 1 to 200 ids, 200 included, is accepted: the batch request is sent, and the
    result, whatever the remote API answers, is not an invalid-argument error;
  \<^item> a value that is not an array, and the empty list, are rejected with an
    invalid-argument error, and no request is sent;
  \<^item> a list of 201 or more ids is rejected with an invalid-argument error, and no request
    is sent.
\<close>

theorem batch_ids_boundary:
  assumes cached: "truthy (projectName s)"
    and call: "call = call_tool e net ''get_work_items_batch''
                 (\<lambda>cur st. Some (get_work_items_batch e net ids fs asOf expand cur st)) s"
  shows "((\<exists>xs. ids = JArr xs \<and> 1 \<le> length xs \<and> length xs \<le> 200) \<longrightarrow>
            (\<exists>res s'. call = Some (res, s')
               \<and> sent s' = sent s @ [batch_get_request e ids fs asOf expand]
               \<and> (\<forall>m. res \<noteq> Inl (McpError InvalidParams m))))
       \<and> (\<not> isArray ids \<or> ids = JArr [] \<longrightarrow>
            (\<exists>s'. call = Some (Inl (McpError InvalidParams
                       (ToolFailed ''get_work_items_batch'' (SdkText InvalidParams IdsNotNonEmptyArray))), s')
               \<and> sent s' = sent s))
       \<and> ((\<exists>xs. ids = JArr xs \<and> 201 \<le> length xs) \<longrightarrow>
            (\<exists>s'. call = Some (Inl (McpError InvalidParams
                       (ToolFailed ''get_work_items_batch'' (SdkText InvalidParams IdsOver200))), s')
               \<and> sent s' = sent s))"
proof (intro conjI impI)
  assume "\<exists>xs. ids = JArr xs \<and> 1 \<le> length xs \<and> length xs \<le> 200"
  then obtain xs where ids: "ids = JArr xs" and len: "1 \<le> length xs" "length xs \<le> 200" by blast
  let ?r = "batch_get_request e ids fs asOf expand"
  let ?s1 = "(getAxiosInstance s)\<lparr>sent := sent s @ [?r]\<rparr>"
  have h: "get_work_items_batch e net ids fs asOf expand (projectName s) (getAxiosInstance s) =
      (case net (length (sent s)) ?r of
         Inl f \<Rightarrow> (Inl (thrown f), ?s1)
       | Inr data \<Rightarrow> (Inr (Fetched data), ?s1))"
  proof -
    from len have "xs \<noteq> []" "\<not> 200 < length xs" by auto
    then show ?thesis
      by (simp add: get_work_items_batch_def ids send_def sent_getAxiosInstance split: sum.splits)
  qed
  show "\<exists>res s'. call = Some (res, s') \<and> sent s' = sent s @ [?r]
      \<and> (\<forall>m. res \<noteq> Inl (McpError InvalidParams m))"
  proof (cases "net (length (sent s)) ?r")
    case (Inl f)
    then have "call = Some (Inl (McpError InternalError
        (ToolFailed ''get_work_items_batch'' (error_message (thrown f)))), ?s1)"
      by (simp add: call call_tool_cached [OF cached] h error_code_thrown)
    then show ?thesis by simp
  next
    case (Inr data)
    then have "call = Some (Inr (Fetched data), ?s1)"
      by (simp add: call call_tool_cached [OF cached] h)
    then show ?thesis by simp
  qed
next
  assume "\<not> isArray ids \<or> ids = JArr []"
  then have "get_work_items_batch e net ids fs asOf expand (projectName s) (getAxiosInstance s) =
      (Inl (McpError InvalidParams IdsNotNonEmptyArray), getAxiosInstance s)"
    by (auto simp: get_work_items_batch_def)
  then have "call = Some (Inl (McpError InvalidParams
      (ToolFailed ''get_work_items_batch'' (SdkText InvalidParams IdsNotNonEmptyArray))), getAxiosInstance s)"
    by (simp add: call call_tool_cached [OF cached])
  then show "\<exists>s'. call = Some (Inl (McpError InvalidParams
                       (ToolFailed ''get_work_items_batch'' (SdkText InvalidParams IdsNotNonEmptyArray))), s')
               \<and> sent s' = sent s"
    by (simp add: sent_getAxiosInstance)
next
  assume "\<exists>xs. ids = JArr xs \<and> 201 \<le> length xs"
  then have "get_work_items_batch e net ids fs asOf expand (projectName s) (getAxiosInstance s) =
      (Inl (McpError InvalidParams IdsOver200), getAxiosInstance s)"
    by (auto simp: get_work_items_batch_def)
  then have "call = Some (Inl (McpError InvalidParams
      (ToolFailed ''get_work_items_batch'' (SdkText InvalidParams IdsOver200))), getAxiosInstance s)"
    by (simp add: call call_tool_cached [OF cached])
  then show "\<exists>s'. call = Some (Inl (McpError InvalidParams
                       (ToolFailed ''get_work_items_batch'' (SdkText InvalidParams IdsOver200))), s')
               \<and> sent s' = sent s"
    by (simp add: sent_getAxiosInstance)
qed

text \<open>Claim C6 at lists of 200 and of 201 ids and at a string.\<close>

theorem batch_ids_boundary_witness:
  "truthy (projectName ready)
   \<and> (\<exists>res s'. call_tool env0 net_ok ''get_work_items_batch''
                  (\<lambda>cur st. Some (get_work_items_batch env0 net_ok (JArr (replicate 200 (JNum 1)))
                                     None None None cur st)) ready = Some (res, s')
        \<and> sent s' = sent ready @ [batch_get_request env0 (JArr (replicate 200 (JNum 1))) None None None]
        \<and> (\<forall>m. res \<noteq> Inl (McpError InvalidParams m)))
   \<and> (\<exists>s'. call_tool env0 net_ok ''get_work_items_batch''
                  (\<lambda>cur st. Some (get_work_items_batch env0 net_ok (JArr (replicate 201 (JNum 1)))
                                     None None None cur st)) ready
             = Some (Inl (McpError InvalidParams
                       (ToolFailed ''get_work_items_batch'' (SdkText InvalidParams IdsOver200))), s')
        \<and> sent s' = sent ready)
   \<and> (\<exists>s'. call_tool env0 net_ok ''get_work_items_batch''
                  (\<lambda>cur st. Some (get_work_items_batch env0 net_ok (JStr ''1,2'')
                                     None None None cur st)) ready
             = Some (Inl (McpError InvalidParams
                       (ToolFailed ''get_work_items_batch'' (SdkText InvalidParams IdsNotNonEmptyArray))), s')
        \<and> sent s' = sent ready)"
proof -
  have cached: "truthy (projectName ready)" by (simp add: ready_def)
  have a: "\<exists>xs. JArr (replicate 200 (JNum 1)) = JArr xs \<and> 1 \<le> length xs \<and> length xs \<le> 200"
    by simp
  have b: "\<exists>xs. JArr (replicate 201 (JNum 1)) = JArr xs \<and> 201 \<le> length xs"
    by simp
  have c: "\<not> isArray (JStr ''1,2'') \<or> JStr ''1,2'' = JArr []" by simp
  from batch_ids_boundary [OF cached refl, where e = env0 and net = net_ok
        and ids = "JArr (replicate 200 (JNum 1))" and fs = None and asOf = None and expand = None] a
    batch_ids_boundary [OF cached refl, where e = env0 and net = net_ok
        and ids = "JArr (replicate 201 (JNum 1))" and fs = None and asOf = None and expand = None] b
    batch_ids_boundary [OF cached refl, where e = env0 and net = net_ok
        and ids = "JStr ''1,2''" and fs = None and asOf = None and expand = None] c
    cached
  show ?thesis by blast
qed

section \<open>batch_update_work_items: claims\<close>







section \<open>update_work_item: claims\<close>

lemma plain_dot: "plain_char CHR ''.''"
  by (simp add: plain_char_def is_space_def)

text \<open>The test is the regular expression: the strings that pass are those of the form
  \<open>a@b.c\<close> with \<open>a\<close>, \<open>b\<close> and \<open>c\<close> non-empty and free of \<open>@\<close> and white space.\<close>

lemma email_test_iff:
  "email_test s \<longleftrightarrow>
     (\<exists>a b c. s = a @ ''@'' @ b @ ''.'' @ c \<and> a \<noteq> [] \<and> b \<noteq> [] \<and> c \<noteq> []
        \<and> list_all plain_char a \<and> list_all plain_char b \<and> list_all plain_char c)"
proof
  assume "email_test s"
  define local where "local = takeWhile (\<lambda>c. c \<noteq> CHR ''@'') s"
  define rest where "rest = drop (length local + 1) s"
  from \<open>email_test s\<close> have local: "local \<noteq> []" "length local < length s" "list_all plain_char local"
    and rest: "list_all plain_char rest" "CHR ''.'' \<in> set (butlast (tl rest))"
    by (simp_all add: email_test_def Let_def local_def rest_def)
  have s: "s = local @ dropWhile (\<lambda>c. c \<noteq> CHR ''@'') s" by (simp add: local_def)
  have "length (local @ dropWhile (\<lambda>c. c \<noteq> CHR ''@'') s) = length s"
    using s by simp
  then have len: "length local + length (dropWhile (\<lambda>c. c \<noteq> CHR ''@'') s) = length s"
    by simp
  have ne: "dropWhile (\<lambda>c. c \<noteq> CHR ''@'') s \<noteq> []"
  proof
    assume "dropWhile (\<lambda>c. c \<noteq> CHR ''@'') s = []"
    then have "length (dropWhile (\<lambda>c. c \<noteq> CHR ''@'') s) = 0" by (simp only: list.size)
    with len local(2) show False by linarith
  qed
  then have "hd (dropWhile (\<lambda>c. c \<noteq> CHR ''@'') s) = CHR ''@''"
    using hd_dropWhile [of "\<lambda>c. c \<noteq> CHR ''@''" s] by simp
  with ne obtain tl' where dw: "dropWhile (\<lambda>c. c \<noteq> CHR ''@'') s = CHR ''@'' # tl'"
    by (cases "dropWhile (\<lambda>c. c \<noteq> CHR ''@'') s") auto
  with s have s': "s = local @ CHR ''@'' # tl'" by simp
  have "drop (length local + 1) (local @ CHR ''@'' # tl') = tl'" by simp
  with s' have rest_tl: "rest = tl'" unfolding rest_def by simp
  from rest(2) obtain r0 rs where r: "rest = r0 # rs" by (cases rest) auto
  with rest(2) have "CHR ''.'' \<in> set (butlast rs)" by simp
  then obtain m1 m2 where bl: "butlast rs = m1 @ CHR ''.'' # m2" by (auto dest: split_list)
  then have "rs \<noteq> []" by auto
  then have "rs = butlast rs @ [last rs]" by simp
  with bl have rs: "rs = m1 @ CHR ''.'' # m2 @ [last rs]" by simp
  let ?b = "r0 # m1" and ?c = "m2 @ [last rs]"
  from r rs have rest_eq: "rest = ?b @ CHR ''.'' # ?c" by simp
  have "s = local @ ''@'' @ ?b @ ''.'' @ ?c" using s' rest_tl rest_eq by simp
  moreover have "list_all plain_char ?b" "list_all plain_char ?c"
    using rest(1) unfolding rest_eq by simp_all
  ultimately show "\<exists>a b c. s = a @ ''@'' @ b @ ''.'' @ c \<and> a \<noteq> [] \<and> b \<noteq> [] \<and> c \<noteq> []
        \<and> list_all plain_char a \<and> list_all plain_char b \<and> list_all plain_char c"
    using local by blast
next
  assume "\<exists>a b c. s = a @ ''@'' @ b @ ''.'' @ c \<and> a \<noteq> [] \<and> b \<noteq> [] \<and> c \<noteq> []
        \<and> list_all plain_char a \<and> list_all plain_char b \<and> list_all plain_char c"
  then obtain a b c where s: "s = a @ ''@'' @ b @ ''.'' @ c" and ne: "a \<noteq> []" "b \<noteq> []" "c \<noteq> []"
    and pl: "list_all plain_char a" "list_all plain_char b" "list_all plain_char c" by blast
  from pl(1) have "\<forall>x\<in>set a. x \<noteq> CHR ''@''" by (auto simp: list_all_iff plain_char_def)
  then have tw: "takeWhile (\<lambda>c. c \<noteq> CHR ''@'') s = a" unfolding s by (simp add: takeWhile_append2)
  have rest: "drop (length a + 1) s = b @ ''.'' @ c" unfolding s by simp
  obtain b0 bs where b: "b = b0 # bs" using ne(2) by (cases b) auto
  have "butlast (tl (b @ ''.'' @ c)) = bs @ CHR ''.'' # butlast c"
    using ne(3) by (simp add: b butlast_append)
  then have dot: "CHR ''.'' \<in> set (butlast (tl (b @ ''.'' @ c)))" by simp
  have "list_all plain_char (b @ ''.'' @ c)" using pl plain_dot by simp
  with tw rest dot ne pl show "email_test s"
    by (simp add: email_test_def Let_def s)
qed



section \<open>search_work_items: claims\<close>

lemma split_append: "sep \<notin> set x \<Longrightarrow> split sep (x @ sep # rest) = x # split sep rest"
  by (induction x) auto

lemma split_no_separator: "sep \<notin> set x \<Longrightarrow> split sep x = [x]"
  by (induction x) auto

lemma split_join:
  "segs \<noteq> [] \<Longrightarrow> \<forall>seg\<in>set segs. sep \<notin> set seg \<Longrightarrow> split sep (join [sep] segs) = segs"
proof (induction "[sep]" segs rule: join.induct)
  case 1
  then show ?case by simp
next
  case (2 x)
  then show ?case by (simp add: split_no_separator)
next
  case (3 x y ys)
  then show ?case by (simp add: split_append)
qed

lemma tag_list_empty: "tag_list [] = []"
  by (simp add: tag_list_def trim_def)

lemma tag_conditions_Some:
  "tag_conditions (Some t) =
     (if tag_list t = [] then []
      else [''('' @ join '' OR '' (map contains_tag (tag_list t)) @ '')''])"
  by (cases "t = []") (auto simp: tag_conditions_def str_truthy_def the_string_def tag_list_empty)

lemma search_conditions_tags:
  assumes "search_conditions args cur = Inr conditions"
  shows "\<exists>before after.
      conditions = before @ tag_conditions (tags args) @ after
    \<and> (\<forall>t. search_conditions (args\<lparr>tags := t\<rparr>) cur = Inr (before @ tag_conditions t @ after))"
proof -
  from assms obtain p where p: "target_project (searchProject args) cur = JStr p"
    by (cases "target_project (searchProject args) cur") (simp_all add: search_conditions_def)
  let ?before = "[''[System.TeamProject] = '' @ quoted (escape_quotes p)]
               @ equals_condition ''[System.WorkItemType]'' (workItemType args)
               @ equals_condition ''[System.State]'' (stateArg args)
               @ equals_condition ''[System.AssignedTo]'' (assignedTo args)"
  let ?after = "date_condition ''[System.CreatedDate]'' (createdAfter args)
               @ date_condition ''[System.ChangedDate]'' (updatedAfter args)
               @ query_conditions (query args)"
  have "conditions = ?before @ tag_conditions (tags args) @ ?after"
    using assms p by (simp add: search_conditions_def)
  moreover have "search_conditions (args\<lparr>tags := t\<rparr>) cur = Inr (?before @ tag_conditions t @ ?after)" for t
    using p by (simp add: search_conditions_def)
  ultimately show ?thesis by blast
qed

text \<open>
  Claim C5. Let the \<open>tags\<close> argument be the segments \<open>segs\<close> joined with semicolons (no
  segment holds a semicolon), and let \<open>tagList\<close> be the segments that are not empty after
  trimming, \<open>N\<close> of them. Then the conditions of the search are those of the same search
  without \<open>tags\<close>, with, when \<open>N\<close> is at least 1, one more condition in between: the
  parenthesised disjunction, joined with \<open>OR\<close>, of exactly \<open>N\<close> clauses
  \<open>[System.Tags] CONTAINS '...'\<close>, one per tag of \<open>tagList\<close> in order. When every segment
  is empty after trimming, nothing is added.
\<close>

theorem tag_filter_disjunction:
  assumes segs: "segs \<noteq> []" "\<forall>seg\<in>set segs. CHR '';'' \<notin> set seg"
    and t: "tags args = Some (join '';'' segs)"
    and tl: "tagList = filter (\<lambda>x. x \<noteq> []) (map trim segs)"
    and ok: "search_conditions args cur = Inr conditions"
  shows "\<exists>before after.
      search_conditions (args\<lparr>tags := None\<rparr>) cur = Inr (before @ after)
    \<and> (tagList \<noteq> [] \<longrightarrow>
          conditions = before @ [''('' @ join '' OR '' (map contains_tag tagList) @ '')''] @ after
        \<and> length (map contains_tag tagList) = length tagList)
    \<and> (tagList = [] \<longrightarrow> conditions = before @ after)"
proof -
  have "split CHR '';'' (join '';'' segs) = segs" using segs by (rule split_join)
  then have tag_list: "tag_list (join '';'' segs) = tagList" by (simp add: tag_list_def tl)
  from search_conditions_tags [OF ok] obtain before after where
    c: "conditions = before @ tag_conditions (tags args) @ after"
    and other: "\<forall>t. search_conditions (args\<lparr>tags := t\<rparr>) cur = Inr (before @ tag_conditions t @ after)"
    by blast
  from other have "search_conditions (args\<lparr>tags := None\<rparr>) cur = Inr (before @ after)"
    by (simp add: tag_conditions_def str_truthy_def)
  moreover have "tag_conditions (tags args) =
      (if tagList = [] then [] else [''('' @ join '' OR '' (map contains_tag tagList) @ '')''])"
    by (simp add: t tag_conditions_Some tag_list)
  ultimately show ?thesis using c by auto
qed

text \<open>Claim C5 at five segments of which three are tags, one of them with a quote.\<close>

theorem tag_filter_disjunction_witness:
  "let segs = [''ui'', '' '', '' api '', [], ''it'' @ [quote] @ ''s''];
       tagList = [''ui'', ''api'', ''it'' @ [quote] @ ''s''];
       args = search_example None (Some (join '';'' segs)) None;
       conditions = [''[System.TeamProject] = '' @ quoted ''Proj'',
                     ''[System.WorkItemType] = '' @ quoted ''Bug'',
                     ''('' @ join '' OR '' (map contains_tag tagList) @ '')'']
   in tagList = filter (\<lambda>x. x \<noteq> []) (map trim segs)
    \<and> search_conditions args (JStr ''Proj'') = Inr conditions
    \<and> contains_tag (''it'' @ [quote] @ ''s'')
        = ''[System.Tags] CONTAINS '' @ [quote] @ ''it'' @ [quote, quote] @ ''s'' @ [quote]
    \<and> (\<exists>before after.
          search_conditions (args\<lparr>tags := None\<rparr>) (JStr ''Proj'') = Inr (before @ after)
        \<and> (tagList \<noteq> [] \<longrightarrow>
              conditions = before @ [''('' @ join '' OR '' (map contains_tag tagList) @ '')''] @ after
            \<and> length (map contains_tag tagList) = length tagList)
        \<and> (tagList = [] \<longrightarrow> conditions = before @ after))"
proof -
  let ?segs = "[''ui'', '' '', '' api '', [], ''it'' @ [quote] @ ''s'']"
  let ?args = "search_example None (Some (join '';'' ?segs)) None"
  let ?tl = "[''ui'', ''api'', ''it'' @ [quote] @ ''s'']"
  let ?conditions = "[''[System.TeamProject] = '' @ quoted ''Proj'',
                     ''[System.WorkItemType] = '' @ quoted ''Bug'',
                     ''('' @ join '' OR '' (map contains_tag ?tl) @ '')'']"
  have segs: "?segs \<noteq> []" "\<forall>seg\<in>set ?segs. CHR '';'' \<notin> set seg" by (simp_all add: quote_def)
  have t: "tags ?args = Some (join '';'' ?segs)" by (simp add: search_example_def)
  have tl: "?tl = filter (\<lambda>x. x \<noteq> []) (map trim ?segs)"
    by (simp add: trim_def is_space_def quote_def)
  have ok: "search_conditions ?args (JStr ''Proj'') = Inr ?conditions"
    by (simp add: search_conditions_def search_example_def target_project_def equals_condition_def
          date_condition_def query_conditions_def tag_conditions_def tag_list_def str_truthy_def
          the_string_def escape_quotes_def quote_def trim_def is_space_def)
  have esc: "contains_tag (''it'' @ [quote] @ ''s'')
        = ''[System.Tags] CONTAINS '' @ [quote] @ ''it'' @ [quote, quote] @ ''s'' @ [quote]"
    by (simp add: contains_tag_def quoted_def escape_quotes_def quote_def)
  note inst = tag_filter_disjunction [OF segs t tl ok]
  show ?thesis unfolding Let_def using tl ok esc inst by blast
qed

text \<open>The two date filters put their value between quotes as it is.\<close>

lemma date_filters_raw:
  assumes "search_conditions args cur = Inr conditions"
  shows "(createdAfter args = Some v \<and> v \<noteq> [] \<longrightarrow>
            ''[System.CreatedDate] >= '' @ quoted v \<in> set conditions)
       \<and> (updatedAfter args = Some v \<and> v \<noteq> [] \<longrightarrow>
            ''[System.ChangedDate] >= '' @ quoted v \<in> set conditions)"
  using assms
  by (auto simp: search_conditions_def date_condition_def str_truthy_def the_string_def
        split: json.splits)

text \<open>
  Claim C4 does not hold of the code for the two date filters. The value \<open>injected\<close>
  holds single quotes; as the \<open>state\<close> filter it appears with its quotes doubled, as the
  \<open>createdAfter\<close> filter it appears unchanged, so that the quote inside it ends the
  literal.
\<close>

theorem date_filter_unescaped:
  "escape_quotes injected \<noteq> injected
   \<and> search_conditions (search_example (Some injected) None (Some injected)) (JStr ''Proj'')
     = Inr [''[System.TeamProject] = '' @ quoted ''Proj'',
            ''[System.WorkItemType] = '' @ quoted ''Bug'',
            ''[System.State] = '' @ quoted (escape_quotes injected),
            ''[System.CreatedDate] >= '' @ quoted injected]"
proof -
  have "escape_quotes injected \<noteq> injected"
    by (simp add: injected_def escape_quotes_def quote_def)
  moreover have "injected \<noteq> []" by (simp add: injected_def)
  then have "search_conditions (search_example (Some injected) None (Some injected)) (JStr ''Proj'')
     = Inr [''[System.TeamProject] = '' @ quoted ''Proj'',
            ''[System.WorkItemType] = '' @ quoted ''Bug'',
            ''[System.State] = '' @ quoted (escape_quotes injected),
            ''[System.CreatedDate] >= '' @ quoted injected]"
    by (simp add: search_conditions_def search_example_def target_project_def equals_condition_def
          date_condition_def query_conditions_def tag_conditions_def str_truthy_def the_string_def
          escape_quotes_def [of "''Proj''"] escape_quotes_def [of "''Bug''"] quote_def)
  ultimately show ?thesis by blast
qed

text \<open>The conditions of that search are not the ones with the date escaped.\<close>

theorem date_filter_unescaped_witness:
  "search_conditions (search_example (Some injected) None (Some injected)) (JStr ''Proj'')
     \<noteq> Inr [''[System.TeamProject] = '' @ quoted ''Proj'',
            ''[System.WorkItemType] = '' @ quoted ''Bug'',
            ''[System.State] = '' @ quoted (escape_quotes injected),
            ''[System.CreatedDate] >= '' @ quoted (escape_quotes injected)]"
proof -
  from date_filter_unescaped have ne: "escape_quotes injected \<noteq> injected"
    and eq: "search_conditions (search_example (Some injected) None (Some injected)) (JStr ''Proj'')
     = Inr [''[System.TeamProject] = '' @ quoted ''Proj'',
            ''[System.WorkItemType] = '' @ quoted ''Bug'',
            ''[System.State] = '' @ quoted (escape_quotes injected),
            ''[System.CreatedDate] >= '' @ quoted injected]"
    by blast+
  from ne show ?thesis unfolding eq by (auto simp: quoted_def)
qed

end
